theory Spec2Isabelle
  imports Main
begin

section \<open>fluffd: the HTTP to Bluetooth bridge of bluefluff\<close>

text \<open>
  A shallow embedding of \<^verbatim>\<open>fluffd.js\<close>. The file has four callbacks (the HTTP request
  listener, the end-of-body callback inside \<^verbatim>\<open>parsePostCommand\<close>, and the two noble
  callbacks for \<^verbatim>\<open>stateChange\<close> and \<^verbatim>\<open>discover\<close>, the latter with the nested callback
  given to \<^verbatim>\<open>fluffcon.connect\<close>) and one piece of state, the object \<^verbatim>\<open>furbies\<close>.
  Every callback becomes a function from the state it reads to the list of calls it
  makes on its collaborators, in program order, and the one assignment to
  \<^verbatim>\<open>furbies\<close> becomes an update of the state.
\<close>

subsection \<open>JavaScript values that reach the program\<close>

text \<open>
  The value \<^verbatim>\<open>JSON.parse\<close> returns. A Number is carried as the string that
  \<^verbatim>\<open>Number.prototype.toString\<close> gives for it: conversion to a string is the only thing
  this program does with a number. An object is the list of its own properties, a
  lookup taking the first entry for a key. \<^verbatim>\<open>undefined\<close> is \<open>None\<close> of \<open>json option\<close>.
\<close>

datatype json =
    JNull
  | JBool bool
  | JNumber string
  | JString string
  | JArray "json list"
  | JObject "(string \<times> json) list"

text \<open>
  The exceptions the \<^verbatim>\<open>try\<close> block can meet. The message of a \<^verbatim>\<open>TypeError\<close> is the
  engine's wording (V8's here); nothing below depends on it.
\<close>

datatype js_error = SyntaxError string | TypeError string

fun error_to_string :: "js_error \<Rightarrow> string" where
  "error_to_string (SyntaxError m) = ''SyntaxError: '' @ m"
| "error_to_string (TypeError m) = ''TypeError: '' @ m"

definition apostrophe :: string where
  "apostrophe = [CHR 0x27]"

fun js_join :: "string \<Rightarrow> string list \<Rightarrow> string" where
  "js_join sep [] = []"
| "js_join sep [x] = x"
| "js_join sep (x # y # ys) = x @ sep @ js_join sep (y # ys)"

text \<open>
  \<^verbatim>\<open>ToString\<close> on a parsed value, \<open>None\<close> when it throws. An object is converted by
  \<^verbatim>\<open>ToPrimitive\<close>: the inherited \<^verbatim>\<open>valueOf\<close> returns the object itself, so the result
  comes from \<^verbatim>\<open>toString\<close>, which is \<^verbatim>\<open>Object.prototype.toString\<close> unless the object has
  an own property of that name; an own property parsed from JSON is never callable,
  and then no method yields a primitive and a \<^verbatim>\<open>TypeError\<close> is thrown. An array is
  joined with commas, \<^verbatim>\<open>null\<close> elements giving the empty string.
\<close>

fun js_to_string :: "json \<Rightarrow> string option" where
  "js_to_string JNull = Some ''null''"
| "js_to_string (JBool b) = Some (if b then ''true'' else ''false'')"
| "js_to_string (JNumber s) = Some s"
| "js_to_string (JString s) = Some s"
| "js_to_string (JArray xs) =
     map_option (js_join '','')
       (those (map (\<lambda>x. if x = JNull then Some [] else js_to_string x) xs))"
| "js_to_string (JObject kvs) =
     (if ''toString'' \<in> set (map fst kvs) then None else Some ''[object Object]'')"

definition value_to_string :: "json option \<Rightarrow> string option" where
  "value_to_string v = (case v of None \<Rightarrow> Some ''undefined'' | Some j \<Rightarrow> js_to_string j)"

definition cannot_convert :: js_error where
  "cannot_convert = TypeError ''Cannot convert object to primitive value''"

text \<open>
  \<^verbatim>\<open>"target" in commandData\<close>. The operator throws on a value that is not an object.
  Neither \<^verbatim>\<open>Object.prototype\<close> nor \<^verbatim>\<open>Array.prototype\<close> has a property \<^verbatim>\<open>target\<close> or
  \<^verbatim>\<open>params\<close>, so for these two names only own properties count, and an array has
  neither.
\<close>

definition not_an_object :: "json \<Rightarrow> js_error" where
  "not_an_object j =
     TypeError (''Cannot use '' @ apostrophe @ ''in'' @ apostrophe @ '' operator to search for ''
                @ apostrophe @ ''target'' @ apostrophe @ '' in ''
                @ (case js_to_string j of Some s \<Rightarrow> s | None \<Rightarrow> []))"

fun target_in :: "json \<Rightarrow> js_error + bool" where
  "target_in (JObject kvs) = Inr (''target'' \<in> set (map fst kvs))"
| "target_in (JArray xs) = Inr False"
| "target_in j = Inl (not_an_object j)"

fun get_property :: "json \<Rightarrow> string \<Rightarrow> json option" where
  "get_property (JObject kvs) k = map_of kvs k"
| "get_property j k = None"

subsection \<open>The registry: the object \<^verbatim>\<open>furbies\<close>\<close>

text \<open>
  A \<^verbatim>\<open>Furby\<close> is built from the peripheral's uuid and the connection \<^verbatim>\<open>fluffcon.connect\<close>
  hands to its callback, and is then taught the command table. The class is in
  \<^verbatim>\<open>./furby\<close>; the record keeps what the constructor and \<^verbatim>\<open>learn\<close> are given.
\<close>

record furby =
  furby_uuid :: string
  furby_fluff :: nat
  furby_commands :: "string list"

text \<open>
  \<^verbatim>\<open>furbies\<close> is a plain object, so its own properties are listed in the order
  \<^verbatim>\<open>for ... in\<close> visits them: keys that are array indices (canonical decimal numerals
  below \<open>2^32 - 1\<close>) in ascending numeric order, then every other key in the order of
  creation. Assigning to an existing key keeps its place. The keys assigned are the
  uuids noble reports, hardware addresses written in hexadecimal digits; the one name
  that assignment treats differently, the accessor \<^verbatim>\<open>__proto__\<close>, is not among them.
\<close>

type_synonym registry = "(string \<times> furby) list"

definition is_digit :: "char \<Rightarrow> bool" where
  "is_digit c = (48 \<le> (of_char c :: nat) \<and> (of_char c :: nat) \<le> 57)"

definition dec_val :: "string \<Rightarrow> nat" where
  "dec_val s = foldl (\<lambda>n c. 10 * n + ((of_char c :: nat) - 48)) 0 s"

definition is_array_index :: "string \<Rightarrow> bool" where
  "is_array_index s =
     (s \<noteq> [] \<and> list_all is_digit s \<and> (s = ''0'' \<or> hd s \<noteq> CHR ''0'')
      \<and> dec_val s < 2 ^ 32 - 1)"

fun replace_own :: "string \<Rightarrow> furby \<Rightarrow> registry \<Rightarrow> registry" where
  "replace_own k v [] = []"
| "replace_own k v ((k', v') # r) =
     (if k' = k then (k, v) # r else (k', v') # replace_own k v r)"

fun create_index :: "string \<Rightarrow> furby \<Rightarrow> registry \<Rightarrow> registry" where
  "create_index k v [] = [(k, v)]"
| "create_index k v ((k', v') # r) =
     (if is_array_index k' \<and> dec_val k' < dec_val k
      then (k', v') # create_index k v r
      else (k, v) # (k', v') # r)"

text \<open>\<^verbatim>\<open>furbies[k] = v\<close>\<close>

definition js_put :: "string \<Rightarrow> furby \<Rightarrow> registry \<Rightarrow> registry" where
  "js_put k v r =
     (if k \<in> set (map fst r) then replace_own k v r
      else if is_array_index k then create_index k v r
      else r @ [(k, v)])"

text \<open>
  The names \<^verbatim>\<open>furbies\<close> inherits from \<^verbatim>\<open>Object.prototype\<close>. None of them is enumerable,
  so \<^verbatim>\<open>for ... in\<close> does not visit them, but the \<^verbatim>\<open>in\<close> operator finds them.
\<close>

definition Object_prototype :: "string list" where
  "Object_prototype =
     [''constructor'', ''__defineGetter__'', ''__defineSetter__'', ''hasOwnProperty'',
      ''__lookupGetter__'', ''__lookupSetter__'', ''isPrototypeOf'', ''propertyIsEnumerable'',
      ''toString'', ''valueOf'', ''__proto__'', ''toLocaleString'']"

text \<open>\<^verbatim>\<open>k in furbies\<close>\<close>

definition js_in :: "string \<Rightarrow> registry \<Rightarrow> bool" where
  "js_in k r = (k \<in> set (map fst r) \<or> k \<in> set Object_prototype)"

subsection \<open>Calls on the collaborators\<close>

record peripheral =
  uuid :: string
  localName :: "string option"

datatype effect =
    WriteHead nat "(string \<times> string) list"
  | End "string option"
  | Log string string "json option list"
  | Do furby string "json option"
  | StartScanning
  | StopScanning
  | Connect peripheral
  | Introspect peripheral

text \<open>
  A block of statements: the calls it made, and the exception that cut it short, if
  any. \<open>seq\<close> is the semicolon.
\<close>

type_synonym block = "effect list \<times> js_error option"

fun seq :: "block \<Rightarrow> block \<Rightarrow> block" where
  "seq (es, Some e) b = (es, Some e)"
| "seq (es, None) (es', x) = (es @ es', x)"

definition throw :: "js_error \<Rightarrow> block" where
  "throw e = ([], Some e)"

definition call :: "effect \<Rightarrow> block" where
  "call c = ([c], None)"

subsection \<open>\<^verbatim>\<open>parsePostCommand\<close>\<close>

text \<open>
  Modelled from the spec: \<^verbatim>\<open>Furby.do\<close>, of the class in \<^verbatim>\<open>./furby\<close>, which is not among
  the sources. The spec has the invocation return to the caller at once, its failure
  being reported later and logged only: the call is recorded and the block goes on.
\<close>

definition Furby_do :: "furby \<Rightarrow> string \<Rightarrow> json option \<Rightarrow> block" where
  "Furby_do f commandName params = call (Do f commandName params)"

text \<open>
  \<^verbatim>\<open>furbies[furbyId].do(commandName, commandData.params)\<close>. An own property is a
  \<^verbatim>\<open>Furby\<close>, and its \<^verbatim>\<open>do\<close> is called. An inherited one is a built-in without a
  \<^verbatim>\<open>do\<close>, and calling \<^verbatim>\<open>undefined\<close> throws; so does reading \<^verbatim>\<open>do\<close> from a missing
  property.
\<close>

definition call_do :: "registry \<Rightarrow> string \<Rightarrow> string \<Rightarrow> json option \<Rightarrow> block" where
  "call_do furbies furbyId commandName params =
     (case map_of furbies furbyId of
        Some f \<Rightarrow> Furby_do f commandName params
      | None \<Rightarrow>
          if furbyId \<in> set Object_prototype
          then throw (TypeError ''furbies[furbyId].do is not a function'')
          else throw (TypeError (''Cannot read property '' @ apostrophe @ ''do'' @ apostrophe
                                 @ '' of undefined'')))"

text \<open>The loop \<^verbatim>\<open>for (let furbyId in furbies)\<close> over the keys it visits.\<close>

fun for_in :: "registry \<Rightarrow> string list \<Rightarrow> string \<Rightarrow> json option \<Rightarrow> block" where
  "for_in furbies [] commandName params = ([], None)"
| "for_in furbies (furbyId # ks) commandName params =
     seq (call_do furbies furbyId commandName params) (for_in furbies ks commandName params)"

text \<open>
  The first branch, lines 76 to 84. The log message is built by concatenation, which
  converts the target and then the parameters to strings and may throw. The key
  looked up is the target converted to a property key.
\<close>

definition single :: "registry \<Rightarrow> string \<Rightarrow> json \<Rightarrow> block" where
  "single furbies commandName commandData =
     (case value_to_string (get_property commandData ''target'') of
        None \<Rightarrow> throw cannot_convert
      | Some target \<Rightarrow>
         (case value_to_string (get_property commandData ''params'') of
            None \<Rightarrow> throw cannot_convert
          | Some params \<Rightarrow>
              seq (call (Log ''verbose''
                     (''Sending '' @ commandName @ '' command to single Furby '' @ target
                        @ '', params: '' @ params) []))
                (let furbyId = target in
                 if js_in furbyId furbies
                 then call_do furbies furbyId commandName (get_property commandData ''params'')
                 else seq (call (Log ''warn'' ''could not find target'' []))
                          (call (End (Some ''error: could not find target''))))))"

text \<open>The second branch, lines 88 to 91.\<close>

definition broadcast :: "registry \<Rightarrow> string \<Rightarrow> json \<Rightarrow> block" where
  "broadcast furbies commandName commandData =
     seq (call (Log ''verbose'' (''Sending '' @ commandName @ '' command to all Furbies, params:'')
                  [get_property commandData ''params'']))
         (for_in furbies (map fst furbies) commandName (get_property commandData ''params''))"

text \<open>
  The body of the \<^verbatim>\<open>try\<close>, lines 74 to 93, given what \<^verbatim>\<open>JSON.parse\<close> made of the
  request body: \<open>Inl\<close> the \<^verbatim>\<open>SyntaxError\<close> it threw, \<open>Inr\<close> the value it returned.
\<close>

definition try_block :: "registry \<Rightarrow> string \<Rightarrow> js_error + json \<Rightarrow> block" where
  "try_block furbies commandName parsed =
     (case parsed of
        Inl e \<Rightarrow> throw e
      | Inr commandData \<Rightarrow>
          seq (case target_in commandData of
                 Inl e \<Rightarrow> throw e
               | Inr True \<Rightarrow> single furbies commandName commandData
               | Inr False \<Rightarrow> broadcast furbies commandName commandData)
              (call (End (Some ''ok''))))"

text \<open>
  The callback for the end of the request body: the \<^verbatim>\<open>try\<close> and its \<^verbatim>\<open>catch\<close>. The
  result is every call made, in order.
\<close>

definition parsePostCommand :: "registry \<Rightarrow> string \<Rightarrow> js_error + json \<Rightarrow> effect list" where
  "parsePostCommand furbies commandName parsed =
     (case try_block furbies commandName parsed of
        (es, None) \<Rightarrow> es
      | (es, Some e) \<Rightarrow>
          es @ [Log ''warn'' (''Could not parse HTTP command: '' @ error_to_string e) [],
                End (Some (''error: '' @ error_to_string e))])"

subsection \<open>The HTTP request listener\<close>

text \<open>
  A request, as the listener and \<^verbatim>\<open>parsePostCommand\<close> see it: the method, the URL,
  and what \<^verbatim>\<open>JSON.parse\<close> makes of the body once it has arrived in full.
\<close>

record request =
  req_method :: string
  req_url :: string
  req_body :: "js_error + json"

text \<open>\<^verbatim>\<open>s.split(c)\<close> for a separator of one character: never the empty list.\<close>

fun js_split :: "char \<Rightarrow> string \<Rightarrow> string list" where
  "js_split c [] = [[]]"
| "js_split c (x # xs) =
     (if x = c then [] # js_split c xs
      else (case js_split c xs of
              [] \<Rightarrow> [[x]]
            | w # ws \<Rightarrow> (x # w) # ws))"

text \<open>
  Lines 37 to 39: \<^verbatim>\<open>splice(0, 2)\<close> moves the first two fragments into \<^verbatim>\<open>query\<close>, and the
  rest, joined again, is pushed as its last element.
\<close>

definition query_of :: "string \<Rightarrow> string list" where
  "query_of url =
     (let fragments = js_split (CHR ''/'') (drop 1 url);
          query = take 2 fragments;
          fragments = drop 2 fragments
      in query @ [js_join ''/'' fragments])"

definition cors :: "(string \<times> string) list" where
  "cors = [(''Content-Type'', ''text/plain''), (''Access-Control-Allow-Origin'', ''*'')]"

text \<open>
  The listener, lines 36 to 62. \<open>catalog\<close> is \<^verbatim>\<open>JSON.stringify(fluffaction.list())\<close>, from
  the module \<^verbatim>\<open>./fluffaction\<close>. On a POST to \<^verbatim>\<open>/cmd\<close> the calls of \<^verbatim>\<open>parsePostCommand\<close>
  follow when the body has ended. \<open>query\<close> has at least two elements
  (\<open>query_of_length\<close> below), so \<^verbatim>\<open>query[0]\<close> and \<^verbatim>\<open>query[1]\<close> are strings.
\<close>

definition requestListener :: "registry \<Rightarrow> string \<Rightarrow> request \<Rightarrow> effect list" where
  "requestListener furbies catalog req =
     (let query = query_of (req_url req) in
      if query ! 0 = ''cmd'' then
        WriteHead 200 cors #
          (if req_method req = ''POST''
           then (let commandName = query ! 1
                 in parsePostCommand furbies commandName (req_body req))
           else [End None])
      else if query ! 0 = ''list'' then [WriteHead 200 cors, End (Some catalog)]
      else if query ! 0 = ''scan'' then [StartScanning, End (Some ''scanning'')]
      else [WriteHead 200 cors, End None])"

subsection \<open>What a caller and a device see of a list of calls\<close>

text \<open>
  The body of the response is the argument of the first \<^verbatim>\<open>res.end\<close>: that call sends
  the response, and a later one cannot change what was sent. Its headers are those
  of the \<^verbatim>\<open>writeHead\<close> before it, and none of the program's when there was none.
\<close>

fun response :: "effect list \<Rightarrow> string option" where
  "response [] = None"
| "response (End d # es) = Some (case d of None \<Rightarrow> [] | Some s \<Rightarrow> s)"
| "response (e # es) = response es"

fun headers_from :: "(string \<times> string) list \<Rightarrow> effect list \<Rightarrow> (string \<times> string) list" where
  "headers_from hs [] = hs"
| "headers_from hs (WriteHead c hs' # es) = headers_from hs' es"
| "headers_from hs (End d # es) = hs"
| "headers_from hs (e # es) = headers_from hs es"

definition allows_any_origin :: "effect list \<Rightarrow> bool" where
  "allows_any_origin es = ((''Access-Control-Allow-Origin'', ''*'') \<in> set (headers_from [] es))"

fun is_Do :: "effect \<Rightarrow> bool" where
  "is_Do (Do f n p) = True"
| "is_Do e = False"

fun is_End :: "effect \<Rightarrow> bool" where
  "is_End (End d) = True"
| "is_End e = False"

fun is_Connect :: "effect \<Rightarrow> bool" where
  "is_Connect (Connect p) = True"
| "is_Connect e = False"

fun is_Introspect :: "effect \<Rightarrow> bool" where
  "is_Introspect (Introspect p) = True"
| "is_Introspect e = False"

definition do_calls :: "effect list \<Rightarrow> effect list" where
  "do_calls es = filter is_Do es"

definition end_calls :: "effect list \<Rightarrow> effect list" where
  "end_calls es = filter is_End es"

subsection \<open>The noble callbacks\<close>

text \<open>
  What the process is started with: \<^verbatim>\<open>process.argv[2]\<close>, and from \<^verbatim>\<open>./fluffaction\<close> the
  command table and the serialised catalogue.
\<close>

record config =
  argv2 :: "string option"
  commands :: "string list"
  catalog :: string

definition on_stateChange :: "string \<Rightarrow> effect list" where
  "on_stateChange state =
     (if state = ''poweredOn'' then [StartScanning] else [StopScanning])"

definition on_discover :: "config \<Rightarrow> peripheral \<Rightarrow> effect list" where
  "on_discover cfg p =
     (if localName p = Some ''Furby'' then
        Log ''info'' (''Discovered Furby: '' @ uuid p) [] #
          (if argv2 cfg = Some ''introspect'' then [Introspect p] else [Connect p])
      else [])"

text \<open>The callback given to \<^verbatim>\<open>fluffcon.connect\<close>, lines 122 to 126.\<close>

definition new_Furby :: "config \<Rightarrow> peripheral \<Rightarrow> nat \<Rightarrow> furby" where
  "new_Furby cfg p fluff =
     \<lparr>furby_uuid = uuid p, furby_fluff = fluff, furby_commands = commands cfg\<rparr>"

definition on_connected :: "config \<Rightarrow> peripheral \<Rightarrow> nat \<Rightarrow> registry \<Rightarrow> registry" where
  "on_connected cfg p fluff furbies = js_put (uuid p) (new_Furby cfg p fluff) furbies"

subsection \<open>The process as a transition system\<close>

text \<open>
  The state of the program is \<open>furbies\<close>. The other fields are the surroundings, kept to
  state what the program can and cannot know: \<open>connecting\<close> holds the peripherals for
  which \<^verbatim>\<open>fluffcon.connect\<close> was called and whose callback has not run, \<open>live\<close> the
  uuids the transport holds a connection to, and \<open>exited\<close> whether the process has
  ended.
\<close>

record system =
  furbies :: registry
  connecting :: "peripheral list"
  live :: "string list"
  exited :: bool

definition init :: system where
  "init = \<lparr>furbies = [], connecting = [], live = [], exited = False\<rparr>"

text \<open>
  Modelled from the spec: \<^verbatim>\<open>fluffcon.introspect\<close>, in \<^verbatim>\<open>./fluffcon\<close>, which is not among
  the sources. By the spec it enumerates the services of the peripheral and ends the
  process; it is the only call of this file that does.
\<close>

fun ends_process :: "effect \<Rightarrow> bool" where
  "ends_process (Introspect p) = True"
| "ends_process e = False"

text \<open>
  Modelled from the spec: \<^verbatim>\<open>fluffcon.connect\<close>, in \<^verbatim>\<open>./fluffcon\<close>, which is not among the
  sources. By the spec it runs the callback it is given once, with the connection,
  when the connection is established, and not when it fails: the callback can run for
  a peripheral that a connection was asked for and that has not had it run yet.
\<close>

definition callback_due :: "peripheral \<Rightarrow> peripheral list \<Rightarrow> bool" where
  "callback_due p ps = (p \<in> set ps)"

text \<open>
  What can happen: the two noble notifications, the connect callback being run with a
  connection, the transport losing the connection to a peripheral, and a request.
  This file registers no handler for a lost connection.
\<close>

datatype event =
    StateChange string
  | Discover peripheral
  | Connected peripheral nat
  | Disconnected string
  | Request request

fun step :: "config \<Rightarrow> system \<Rightarrow> event \<Rightarrow> system \<times> effect list" where
  "step cfg s (StateChange state) =
     (if exited s then (s, []) else (s, on_stateChange state))"
| "step cfg s (Discover p) =
     (if exited s then (s, [])
      else (let es = on_discover cfg p in
            if list_ex ends_process es then (s\<lparr>exited := True\<rparr>, es)
            else if Connect p \<in> set es then (s\<lparr>connecting := p # connecting s\<rparr>, es)
            else (s, es)))"
| "step cfg s (Connected p fluff) =
     (if exited s then (s, [])
      else if callback_due p (connecting s)
      then (s\<lparr>furbies := on_connected cfg p fluff (furbies s),
               connecting := remove1 p (connecting s),
               live := uuid p # live s\<rparr>, [])
      else (s, []))"
| "step cfg s (Disconnected u) =
     (if exited s then (s, []) else (s\<lparr>live := removeAll u (live s)\<rparr>, []))"
| "step cfg s (Request req) =
     (if exited s then (s, []) else (s, requestListener (furbies s) (catalog cfg) req))"

fun run :: "config \<Rightarrow> system \<Rightarrow> event list \<Rightarrow> system \<times> effect list" where
  "run cfg s [] = (s, [])"
| "run cfg s (e # evs) =
     (case step cfg s e of
        (s', es) \<Rightarrow> (case run cfg s' evs of (s'', es') \<Rightarrow> (s'', es @ es')))"

text \<open>
  The calls \<^verbatim>\<open>parsePostCommand\<close> can make: on the logger, on a \<^verbatim>\<open>Furby\<close>, and
  \<^verbatim>\<open>res.end\<close>.
\<close>

fun dispatched :: "effect \<Rightarrow> bool" where
  "dispatched (Log l m a) = True"
| "dispatched (Do f n p) = True"
| "dispatched (End d) = True"
| "dispatched e = False"

text \<open>
  A body that is not the structured object a command request is required to be:
  \<^verbatim>\<open>JSON.parse\<close> threw, or returned anything but an object with named fields
  (\<^verbatim>\<open>null\<close>, a boolean, a number, a string or an array).
\<close>

fun malformed :: "js_error + json \<Rightarrow> bool" where
  "malformed (Inl e) = True"
| "malformed (Inr (JObject kvs)) = False"
| "malformed (Inr j) = True"

text \<open>
  A body on which the \<^verbatim>\<open>try\<close> block throws at once: \<^verbatim>\<open>JSON.parse\<close> threw, or
  returned a primitive value, on which the \<^verbatim>\<open>in\<close> operator of line 75 throws.
\<close>

fun is_primitive :: "json \<Rightarrow> bool" where
  "is_primitive (JObject kvs) = False"
| "is_primitive (JArray xs) = False"
| "is_primitive j = True"

fun unusable :: "js_error + json \<Rightarrow> bool" where
  "unusable (Inl e) = True"
| "unusable (Inr j) = is_primitive j"

text \<open>The \<^verbatim>\<open>params\<close> a request hands to \<^verbatim>\<open>do\<close>.\<close>

definition params_of :: "js_error + json \<Rightarrow> json option" where
  "params_of b = (case b of Inl x \<Rightarrow> None | Inr d \<Rightarrow> get_property d ''params'')"

text \<open>A discovery that passes the test of line 112.\<close>

fun discovers_furby :: "event \<Rightarrow> bool" where
  "discovers_furby (Discover p) = (localName p = Some ''Furby'')"
| "discovers_furby e = False"

subsection \<open>Sample values\<close>

definition post_feed :: "js_error + json \<Rightarrow> request" where
  "post_feed b = \<lparr>req_method = ''POST'', req_url = ''/cmd/feed'', req_body = b\<rparr>"

definition session1 :: furby where
  "session1 = \<lparr>furby_uuid = ''AA:BB'', furby_fluff = 1, furby_commands = []\<rparr>"

definition session2 :: furby where
  "session2 = \<lparr>furby_uuid = ''CC:DD'', furby_fluff = 2, furby_commands = []\<rparr>"

definition two_furbies :: registry where
  "two_furbies = [(''AA:BB'', session1), (''CC:DD'', session2)]"

definition a_furby :: peripheral where
  "a_furby = \<lparr>uuid = ''AA:BB'', localName = Some ''Furby''\<rparr>"

definition server_mode :: config where
  "server_mode = \<lparr>argv2 = None, commands = [], catalog = ''[]''\<rparr>"

definition introspect_mode :: config where
  "introspect_mode = \<lparr>argv2 = Some ''introspect'', commands = [], catalog = ''[]''\<rparr>"

section \<open>Properties\<close>

subsection \<open>Blocks\<close>

lemma seq_call: "seq (call c) b = (c # fst b, snd b)"
  by (cases b) (simp add: call_def)

lemma seq_single: "seq ([c], None) b = (c # fst b, snd b)"
  by (cases b) simp

lemma seq_effects: "set (fst (seq a b)) \<subseteq> set (fst a) \<union> set (fst b)"
  by (cases a; cases b; cases "snd a") auto

subsection \<open>Assignment to the registry\<close>

lemma keys_replace_own: "map fst (replace_own k v r) = map fst r"
  by (induction k v r rule: replace_own.induct) auto

lemma keys_replace_own_set: "fst ` set (replace_own k v r) = fst ` set r"
  using keys_replace_own [of k v r] by (metis set_map)

lemma replace_own_twice: "replace_own k s2 (replace_own k s1 r) = replace_own k s2 r"
  by (induction k s1 r rule: replace_own.induct) auto

lemma replace_own_absent: "k \<notin> fst ` set r \<Longrightarrow> replace_own k v r = r"
  by (induction k v r rule: replace_own.induct) auto

lemma replace_own_create_index:
  "k \<notin> fst ` set r \<Longrightarrow> replace_own k s2 (create_index k s1 r) = create_index k s2 r"
  by (induction k s1 r rule: create_index.induct) (auto simp: replace_own_absent)

lemma replace_own_append:
  "k \<notin> fst ` set r \<Longrightarrow> replace_own k s2 (r @ [(k, s1)]) = r @ [(k, s2)]"
  by (induction k s2 r rule: replace_own.induct) auto

lemma keys_create_index: "fst ` set (create_index k v r) = insert k (fst ` set r)"
  by (induction k v r rule: create_index.induct) auto

lemma keys_js_put: "fst ` set (js_put k v r) = insert k (fst ` set r)"
  by (auto simp: js_put_def keys_replace_own_set keys_create_index)

lemma js_put_twice: "js_put k s2 (js_put k s1 r) = js_put k s2 r"
proof (cases "k \<in> fst ` set r")
  case True
  then show ?thesis
    by (simp add: js_put_def keys_replace_own_set replace_own_twice)
next
  case False
  then show ?thesis
    by (simp add: js_put_def keys_create_index replace_own_create_index replace_own_append)
qed

lemma map_of_replace_own:
  "map_of (replace_own k v r) x = (if x = k \<and> k \<in> fst ` set r then Some v else map_of r x)"
  by (induction k v r rule: replace_own.induct) (auto, force)

lemma map_of_create_index:
  "k \<notin> fst ` set r \<Longrightarrow> map_of (create_index k v r) x = (if x = k then Some v else map_of r x)"
  by (induction k v r rule: create_index.induct) auto

lemma map_of_js_put: "map_of (js_put k v r) x = (if x = k then Some v else map_of r x)"
  by (auto simp: js_put_def map_of_replace_own map_of_create_index map_add_def
      map_of_eq_None_iff [symmetric] split: option.splits)

lemma values_replace_own: "snd ` set (replace_own k v r) \<subseteq> insert v (snd ` set r)"
  by (induction k v r rule: replace_own.induct) auto

lemma values_create_index: "snd ` set (create_index k v r) \<subseteq> insert v (snd ` set r)"
  by (induction k v r rule: create_index.induct) auto

lemma values_js_put: "snd ` set (js_put k v r) \<subseteq> insert v (snd ` set r)"
  using values_replace_own [of k v r] values_create_index [of k v r]
  by (auto simp: js_put_def)

lemma distinct_create_index:
  "k \<notin> fst ` set r \<Longrightarrow> distinct (map fst r) \<Longrightarrow> distinct (map fst (create_index k v r))"
  by (induction k v r rule: create_index.induct) (auto simp: keys_create_index)

lemma distinct_js_put: "distinct (map fst r) \<Longrightarrow> distinct (map fst (js_put k v r))"
  by (auto simp: js_put_def keys_replace_own distinct_create_index)

subsection \<open>Broadcast\<close>

lemma for_in_own:
  "\<forall>(k, f) \<in> set xs. map_of r k = Some f \<Longrightarrow>
   for_in r (map fst xs) n p = (map (\<lambda>(k, f). Do f n p) xs, None)"
  by (induction xs) (auto simp: call_do_def Furby_do_def seq_call)

lemma map_of_own: "distinct (map fst r) \<Longrightarrow> \<forall>(k, f) \<in> set r. map_of r k = Some f"
  by auto

lemma broadcast_calls:
  "distinct (map fst r) \<Longrightarrow> target_in commandData = Inr False \<Longrightarrow>
   parsePostCommand r n (Inr commandData) =
     Log ''verbose'' (''Sending '' @ n @ '' command to all Furbies, params:'')
        [get_property commandData ''params'']
     # map (\<lambda>(k, f). Do f n (get_property commandData ''params'')) r @ [End (Some ''ok'')]"
  by (simp add: parsePostCommand_def try_block_def broadcast_def seq_call
      for_in_own [OF map_of_own] call_def)

lemma filter_Do_map: "filter is_Do (map (\<lambda>(k, f). Do f n p) r) = map (\<lambda>(k, f). Do f n p) r"
  by (induction r) auto

lemma response_Dos: "response (map (\<lambda>(k, f). Do f n p) r @ es) = response es"
  by (induction r) auto

text \<open>
  Claim C3. A parsed body without a \<^verbatim>\<open>target\<close> field has \<^verbatim>\<open>do\<close> called once for each
  entry of the registry, in the order of its keys, with the command name and the
  \<^verbatim>\<open>params\<close> of the body, and the response is \<^verbatim>\<open>ok\<close>; on the empty registry no call is
  made and the response is \<^verbatim>\<open>ok\<close>. The keys of the registry are distinct, as those of
  an object are (\<open>run_distinct\<close> below: they are in every state the process reaches).
\<close>

theorem broadcast_once_per_entry:
  assumes "distinct (map fst r)" and "target_in commandData = Inr False"
  shows "do_calls (parsePostCommand r n (Inr commandData)) =
           map (\<lambda>(k, f). Do f n (get_property commandData ''params'')) r
         \<and> response (parsePostCommand r n (Inr commandData)) = Some ''ok''
         \<and> do_calls (parsePostCommand [] n (Inr commandData)) = []
         \<and> response (parsePostCommand [] n (Inr commandData)) = Some ''ok''"
  using assms by (simp add: broadcast_calls do_calls_def filter_Do_map response_Dos)

theorem broadcast_once_per_entry_witness:
  "distinct (map fst two_furbies) \<and> target_in (JObject []) = Inr False
   \<and> do_calls (parsePostCommand two_furbies ''wiggle'' (Inr (JObject [])))
       = [Do session1 ''wiggle'' None, Do session2 ''wiggle'' None]
   \<and> response (parsePostCommand two_furbies ''wiggle'' (Inr (JObject []))) = Some ''ok''
   \<and> do_calls (parsePostCommand [] ''wiggle'' (Inr (JObject []))) = []
   \<and> response (parsePostCommand [] ''wiggle'' (Inr (JObject []))) = Some ''ok''"
proof -
  have d: "distinct (map fst two_furbies)"
    by (simp add: two_furbies_def)
  have t: "target_in (JObject []) = Inr False"
    by simp
  from d t broadcast_once_per_entry [OF d t, of "''wiggle''"] show ?thesis
    by (simp add: two_furbies_def)
qed

subsection \<open>One target\<close>

lemma single_found:
  assumes "target_in commandData = Inr True"
    and "value_to_string (get_property commandData ''target'') = Some k"
    and "value_to_string (get_property commandData ''params'') = Some ps"
    and "map_of r k = Some f"
  shows "parsePostCommand r n (Inr commandData) =
           [Log ''verbose'' (''Sending '' @ n @ '' command to single Furby '' @ k
                               @ '', params: '' @ ps) [],
            Do f n (get_property commandData ''params''),
            End (Some ''ok'')]"
proof -
  from assms(4) have "js_in k r"
    by (auto simp: js_in_def dest: map_of_SomeD intro: rev_image_eqI)
  with assms show ?thesis
    by (simp add: parsePostCommand_def try_block_def single_def seq_call call_do_def Furby_do_def call_def)
qed

lemma single_not_found:
  assumes "target_in commandData = Inr True"
    and "value_to_string (get_property commandData ''target'') = Some k"
    and "value_to_string (get_property commandData ''params'') = Some ps"
    and "\<not> js_in k r"
  shows "parsePostCommand r n (Inr commandData) =
           [Log ''verbose'' (''Sending '' @ n @ '' command to single Furby '' @ k
                               @ '', params: '' @ ps) [],
            Log ''warn'' ''could not find target'' [],
            End (Some ''error: could not find target''),
            End (Some ''ok'')]"
  using assms
  by (simp add: parsePostCommand_def try_block_def single_def seq_call call_def)

text \<open>
  Claim C2 holds for a target that the \<^verbatim>\<open>in\<close> operator does not find
  (\<open>single_not_found\<close>: the caller is sent \<^verbatim>\<open>error: could not find target\<close> and no
  \<^verbatim>\<open>do\<close> is called), but the operator also finds the names every object inherits. For
  the body \<^verbatim>\<open>{"target": "constructor"}\<close>, a target that is no key of the registry,
  line 80 calls the missing \<^verbatim>\<open>do\<close> of a built-in and the caller is sent the text of
  the \<^verbatim>\<open>TypeError\<close> instead.
\<close>

theorem inherited_name_found:
  "''constructor'' \<notin> fst ` set two_furbies
   \<and> target_in (JObject [(''target'', JString ''constructor'')]) = Inr True
   \<and> response (parsePostCommand two_furbies ''feed''
        (Inr (JObject [(''target'', JString ''constructor'')])))
      = Some ''error: TypeError: furbies[furbyId].do is not a function''
   \<and> do_calls (parsePostCommand two_furbies ''feed''
        (Inr (JObject [(''target'', JString ''constructor'')]))) = []"
  by (simp add: parsePostCommand_def try_block_def single_def seq_call call_do_def Furby_do_def
        call_def throw_def js_in_def value_to_string_def Object_prototype_def two_furbies_def
        do_calls_def)

text \<open>
  Claim C4 holds when the log line of line 76 can be built (\<open>single_found\<close>: \<^verbatim>\<open>do\<close> is
  called on the target's \<^verbatim>\<open>Furby\<close> alone and the response is \<^verbatim>\<open>ok\<close>). The line
  concatenates the parameters into a string, and for the body
  \<^verbatim>\<open>{"target": "AA:BB", "params": {"toString": 0}}\<close>, whose target is in the registry,
  the conversion throws: \<^verbatim>\<open>do\<close> is never called and the caller is sent an error.
\<close>

theorem log_line_throws:
  "map_of two_furbies ''AA:BB'' = Some session1
   \<and> parsePostCommand two_furbies ''feed''
        (Inr (JObject [(''target'', JString ''AA:BB''),
                       (''params'', JObject [(''toString'', JNumber ''0'')])]))
      = [Log ''warn''
           ''Could not parse HTTP command: TypeError: Cannot convert object to primitive value'' [],
         End (Some ''error: TypeError: Cannot convert object to primitive value'')]"
  by (simp add: parsePostCommand_def try_block_def single_def seq_call call_do_def Furby_do_def
        call_def throw_def js_in_def value_to_string_def cannot_convert_def two_furbies_def)

text \<open>
  Claim C10, as it stands, fails for a target that is no key of the registry but a
  name the registry inherits: for \<^verbatim>\<open>{"target": "hasOwnProperty"}\<close> the response is
  ended once, by the \<^verbatim>\<open>catch\<close>.
\<close>

theorem inherited_name_ends_once:
  "''hasOwnProperty'' \<notin> fst ` set two_furbies
   \<and> target_in (JObject [(''target'', JString ''hasOwnProperty'')]) = Inr True
   \<and> end_calls (parsePostCommand two_furbies ''feed''
        (Inr (JObject [(''target'', JString ''hasOwnProperty'')])))
      = [End (Some ''error: TypeError: furbies[furbyId].do is not a function'')]"
  by (simp add: parsePostCommand_def try_block_def single_def seq_call call_do_def Furby_do_def end_calls_def
        call_def throw_def js_in_def value_to_string_def Object_prototype_def two_furbies_def)

text \<open>
  Claim C10, amended. When the body has a \<^verbatim>\<open>target\<close>, the log line can be built, and
  the \<^verbatim>\<open>in\<close> operator does not find the target's key in \<^verbatim>\<open>furbies\<close> (it is neither a
  key of the registry nor a name inherited from \<^verbatim>\<open>Object.prototype\<close>), the handler
  ends the response twice: with \<^verbatim>\<open>error: could not find target\<close>, and then, for want
  of a \<^verbatim>\<open>return\<close>, with \<^verbatim>\<open>ok\<close>.
\<close>

theorem target_not_found_ends_twice:
  assumes "target_in commandData = Inr True"
    and "value_to_string (get_property commandData ''target'') = Some k"
    and "value_to_string (get_property commandData ''params'') = Some ps"
    and "\<not> js_in k r"
  shows "end_calls (parsePostCommand r n (Inr commandData)) =
           [End (Some ''error: could not find target''), End (Some ''ok'')]"
  using assms by (simp add: single_not_found end_calls_def)

theorem target_not_found_ends_twice_witness:
  "target_in (JObject [(''target'', JString ''ZZ:ZZ'')]) = Inr True
   \<and> value_to_string (get_property (JObject [(''target'', JString ''ZZ:ZZ'')]) ''target'')
       = Some ''ZZ:ZZ''
   \<and> value_to_string (get_property (JObject [(''target'', JString ''ZZ:ZZ'')]) ''params'')
       = Some ''undefined''
   \<and> \<not> js_in ''ZZ:ZZ'' [(''AA:BB'', session1)]
   \<and> end_calls (parsePostCommand [(''AA:BB'', session1)] ''feed''
        (Inr (JObject [(''target'', JString ''ZZ:ZZ'')])))
      = [End (Some ''error: could not find target''), End (Some ''ok'')]"
proof -
  have h: "target_in (JObject [(''target'', JString ''ZZ:ZZ'')]) = Inr True"
    "value_to_string (get_property (JObject [(''target'', JString ''ZZ:ZZ'')]) ''target'')
       = Some ''ZZ:ZZ''"
    "value_to_string (get_property (JObject [(''target'', JString ''ZZ:ZZ'')]) ''params'')
       = Some ''undefined''"
    "\<not> js_in ''ZZ:ZZ'' [(''AA:BB'', session1)]"
    by (simp_all add: value_to_string_def js_in_def Object_prototype_def)
  from h target_not_found_ends_twice [OF h, of "''feed''"] show ?thesis
    by simp
qed

subsection \<open>The calls a request can cause\<close>

lemma call_do_effects:
  "e \<in> set (fst (call_do r k n p)) \<Longrightarrow> \<exists>f. e = Do f n p \<and> map_of r k = Some f"
  by (auto simp: call_do_def Furby_do_def call_def throw_def split: option.splits if_splits)

lemma for_in_effects:
  "e \<in> set (fst (for_in r ks n p)) \<Longrightarrow> \<exists>f k. e = Do f n p \<and> map_of r k = Some f"
proof (induction ks)
  case Nil
  then show ?case by simp
next
  case (Cons k ks)
  from Cons.prems seq_effects [of "call_do r k n p" "for_in r ks n p"]
  have "e \<in> set (fst (call_do r k n p)) \<or> e \<in> set (fst (for_in r ks n p))"
    by auto
  then show ?case
    using Cons.IH call_do_effects by blast
qed

lemma single_effects:
  "e \<in> set (fst (single r n d)) \<Longrightarrow>
   dispatched e
   \<and> (is_Do e \<longrightarrow> (\<exists>f k. e = Do f n (get_property d ''params'') \<and> map_of r k = Some f))"
  by (auto simp: single_def seq_single call_def throw_def Let_def
      dest!: call_do_effects split: option.splits if_splits)

lemma broadcast_effects:
  "e \<in> set (fst (broadcast r n d)) \<Longrightarrow>
   dispatched e
   \<and> (is_Do e \<longrightarrow> (\<exists>f k. e = Do f n (get_property d ''params'') \<and> map_of r k = Some f))"
  by (auto simp: broadcast_def seq_call dest!: for_in_effects)

lemma try_block_effects:
  assumes "e \<in> set (fst (try_block r n b))"
  shows "dispatched e
         \<and> (is_Do e \<longrightarrow> (\<exists>f k. e = Do f n (params_of b) \<and> map_of r k = Some f))"
proof (cases b)
  case (Inl x)
  with assms show ?thesis by (simp add: try_block_def throw_def)
next
  case (Inr d)
  let ?body = "case target_in d of Inl e \<Rightarrow> throw e | Inr True \<Rightarrow> single r n d
               | Inr False \<Rightarrow> broadcast r n d"
  from assms Inr seq_effects [of ?body "call (End (Some ''ok''))"]
  have "e \<in> set (fst ?body) \<or> e = End (Some ''ok'')"
    by (auto simp: try_block_def call_def)
  with Inr show ?thesis
    using single_effects [of e r n d] broadcast_effects [of e r n d]
    by (auto simp: throw_def params_of_def split: sum.splits bool.splits)
qed

text \<open>
  Whatever the body, \<^verbatim>\<open>parsePostCommand\<close> calls only the logger, \<^verbatim>\<open>res.end\<close> and \<^verbatim>\<open>do\<close>,
  and \<^verbatim>\<open>do\<close> only on a \<^verbatim>\<open>Furby\<close> of the registry, with the command name of the URL and
  the \<^verbatim>\<open>params\<close> of the body.
\<close>

lemma parsePostCommand_effects:
  assumes "e \<in> set (parsePostCommand r n b)"
  shows "dispatched e
         \<and> (is_Do e \<longrightarrow> (\<exists>f k. e = Do f n (params_of b) \<and> map_of r k = Some f))"
proof (cases "try_block r n b")
  case (Pair es x)
  with assms have "e \<in> set (fst (try_block r n b)) \<or> (dispatched e \<and> \<not> is_Do e)"
    by (cases x) (auto simp: parsePostCommand_def)
  then show ?thesis
    using try_block_effects [of e r n b] by blast
qed

lemma requestListener_Do:
  assumes "e \<in> set (requestListener r cat req)" and "is_Do e"
  shows "\<exists>f k. e = Do f (query_of (req_url req) ! 1) (params_of (req_body req))
               \<and> map_of r k = Some f"
  using assms parsePostCommand_effects [of e r "query_of (req_url req) ! 1" "req_body req"]
  by (auto simp: requestListener_def Let_def split: if_splits)

lemma requestListener_serves:
  "e \<in> set (requestListener r cat req) \<Longrightarrow> \<not> is_Connect e \<and> \<not> is_Introspect e"
  using parsePostCommand_effects [of e r "query_of (req_url req) ! 1" "req_body req"]
  by (cases e) (auto simp: requestListener_def Let_def split: if_splits)

lemma requestListener_empty: "do_calls (requestListener [] cat req) = []"
  using requestListener_Do [of _ "[]" cat req]
  by (auto simp: do_calls_def filter_empty_conv)

subsection \<open>The URL\<close>

lemma js_split_nonempty: "js_split c s \<noteq> []"
  by (induction s) (auto split: list.splits)

text \<open>\<^verbatim>\<open>query[0]\<close> and \<^verbatim>\<open>query[1]\<close> are always there.\<close>

lemma query_of_length: "2 \<le> length (query_of url)"
  using js_split_nonempty [of "CHR ''/''" "drop 1 url"]
  by (cases "js_split (CHR ''/'') (drop 1 url)") (auto simp: query_of_def Let_def)

lemma query_cmd_feed: "query_of ''/cmd/feed'' = [''cmd'', ''feed'', []]"
  by (simp add: query_of_def)

subsection \<open>Bodies that cannot be used\<close>

lemma unusable_throws: "unusable b \<Longrightarrow> \<exists>e. try_block r n b = ([], Some e)"
  by (cases b; cases "projr b") (auto simp: try_block_def throw_def)

lemma unusable_response:
  assumes "unusable b"
  shows "(\<exists>rest. response (parsePostCommand r n b) = Some (''error:'' @ rest))
         \<and> do_calls (parsePostCommand r n b) = []"
proof -
  from assms obtain e where "try_block r n b = ([], Some e)"
    using unusable_throws by blast
  then show ?thesis
    by (simp add: parsePostCommand_def do_calls_def)
qed

subsection \<open>The process\<close>

lemma run_Cons_fst: "fst (run cfg s (e # evs)) = fst (run cfg (fst (step cfg s e)) evs)"
  by (simp split: prod.splits)

lemma run_Cons_snd:
  "snd (run cfg s (e # evs)) = snd (step cfg s e) @ snd (run cfg (fst (step cfg s e)) evs)"
  by (simp split: prod.splits)

lemma step_furbies:
  "furbies (fst (step cfg s e)) = furbies s
   \<or> (\<exists>p fluff. e = Connected p fluff \<and> p \<in> set (connecting s)
        \<and> furbies (fst (step cfg s e)) = js_put (uuid p) (new_Furby cfg p fluff) (furbies s))"
  by (cases e) (auto simp: Let_def on_connected_def callback_due_def)

lemma step_keys: "fst ` set (furbies s) \<subseteq> fst ` set (furbies (fst (step cfg s e)))"
  by (cases e) (auto simp: Let_def on_connected_def keys_js_put callback_due_def)

text \<open>The transport holds the connection at the moment the entry is inserted.\<close>

lemma inserted_while_live:
  "\<not> exited s \<Longrightarrow> callback_due p (connecting s) \<Longrightarrow>
   uuid p \<in> set (live (fst (step cfg s (Connected p fluff))))
   \<and> map_of (furbies (fst (step cfg s (Connected p fluff)))) (uuid p)
       = Some (new_Furby cfg p fluff)"
  by (simp add: on_connected_def map_of_js_put)

lemma step_distinct:
  "distinct (map fst (furbies s)) \<Longrightarrow> distinct (map fst (furbies (fst (step cfg s e))))"
  using step_furbies [of cfg s e] by (auto simp: distinct_js_put)

lemma run_distinct:
  "distinct (map fst (furbies s)) \<Longrightarrow> distinct (map fst (furbies (fst (run cfg s evs))))"
proof (induction evs arbitrary: s)
  case Nil
  then show ?case by simp
next
  case (Cons e evs)
  from Cons.prems have "distinct (map fst (furbies (fst (step cfg s e))))"
    by (rule step_distinct)
  from Cons.IH [OF this] show ?case
    by (simp only: run_Cons_fst)
qed

text \<open>
  Claim C1 is what the comments of the file say \<^verbatim>\<open>furbies\<close> is (line 32: the list of
  connected Furbies; line 18: a command without target goes to all connected
  Furbies), and the code does not keep it: the file has no handler for a lost
  connection and no statement that removes a key, and only the connect callback
  writes to the registry (\<open>step_furbies\<close>, \<open>step_keys\<close>). After a Furby was
  discovered, connected and lost, its entry is still in the registry while the
  transport holds no connection to it, and a command without target is still sent
  to it.
\<close>

theorem entry_outlives_connection:
  "map fst (furbies (fst (run server_mode init
      [Discover a_furby, Connected a_furby 1, Disconnected ''AA:BB'']))) = [''AA:BB'']
   \<and> live (fst (run server_mode init
      [Discover a_furby, Connected a_furby 1, Disconnected ''AA:BB''])) = []
   \<and> do_calls (snd (run server_mode init
      [Discover a_furby, Connected a_furby 1, Disconnected ''AA:BB'',
       Request (post_feed (Inr (JObject [])))]))
      = [Do (new_Furby server_mode a_furby 1) ''feed'' None]"
  by (simp add: server_mode_def init_def a_furby_def on_discover_def on_connected_def
      js_put_def new_Furby_def is_array_index_def is_digit_def callback_due_def
      post_feed_def requestListener_def query_cmd_feed parsePostCommand_def try_block_def
      broadcast_def seq_call call_do_def Furby_do_def call_def do_calls_def Let_def)

text \<open>
  Claim C6. The insert is the assignment of the connect callback, and it overwrites:
  when the callback runs for a peripheral and then again for a peripheral of the same
  uuid, the first run leaves the first session under the uuid, and after the second
  run the registry is what the second run alone would have made of it, the entry of
  the uuid is the second session, and the first session is the value of no key
  (unless it was in the registry before).
\<close>

theorem reconnect_overwrites:
  assumes "\<not> exited s" and "callback_due p1 (connecting s)"
    and "callback_due p2 (remove1 p1 (connecting s))" and "uuid p2 = uuid p1"
  shows "map_of (furbies (fst (step cfg s (Connected p1 f1)))) (uuid p1)
           = Some (new_Furby cfg p1 f1)
         \<and> furbies (fst (step cfg (fst (step cfg s (Connected p1 f1))) (Connected p2 f2)))
           = js_put (uuid p1) (new_Furby cfg p2 f2) (furbies s)
         \<and> map_of (furbies (fst (step cfg (fst (step cfg s (Connected p1 f1)))
                                  (Connected p2 f2)))) (uuid p1)
           = Some (new_Furby cfg p2 f2)
         \<and> (f1 \<noteq> f2 \<and> new_Furby cfg p1 f1 \<notin> snd ` set (furbies s) \<longrightarrow>
              new_Furby cfg p1 f1
                \<notin> snd ` set (furbies (fst (step cfg (fst (step cfg s (Connected p1 f1)))
                                             (Connected p2 f2)))))"
proof -
  let ?s1 = "fst (step cfg s (Connected p1 f1))"
  let ?s2 = "fst (step cfg ?s1 (Connected p2 f2))"
  from assms(1,2) have one: "furbies ?s1 = js_put (uuid p1) (new_Furby cfg p1 f1) (furbies s)"
    "connecting ?s1 = remove1 p1 (connecting s)" "\<not> exited ?s1"
    by (simp_all add: on_connected_def)
  with assms(3,4) have two: "furbies ?s2 = js_put (uuid p1) (new_Furby cfg p2 f2) (furbies s)"
    by (simp add: on_connected_def js_put_twice)
  have ne: "f1 \<noteq> f2 \<Longrightarrow> new_Furby cfg p1 f1 \<noteq> new_Furby cfg p2 f2"
    by (simp add: new_Furby_def)
  from one(1) two ne values_js_put [of "uuid p1" "new_Furby cfg p2 f2" "furbies s"]
  show ?thesis
    by (auto simp: map_of_js_put)
qed

theorem reconnect_overwrites_witness:
  "\<not> exited (init\<lparr>connecting := [a_furby, a_furby]\<rparr>)
   \<and> callback_due a_furby (connecting (init\<lparr>connecting := [a_furby, a_furby]\<rparr>))
   \<and> callback_due a_furby (remove1 a_furby (connecting (init\<lparr>connecting := [a_furby, a_furby]\<rparr>)))
   \<and> (1 :: nat) \<noteq> 2
   \<and> new_Furby server_mode a_furby 1
       \<notin> snd ` set (furbies (init\<lparr>connecting := [a_furby, a_furby]\<rparr>))
   \<and> map_of (furbies (fst (step server_mode (init\<lparr>connecting := [a_furby, a_furby]\<rparr>)
                              (Connected a_furby 1)))) ''AA:BB''
       = Some (new_Furby server_mode a_furby 1)
   \<and> furbies (fst (step server_mode
                 (fst (step server_mode (init\<lparr>connecting := [a_furby, a_furby]\<rparr>)
                         (Connected a_furby 1)))
                 (Connected a_furby 2)))
       = [(''AA:BB'', new_Furby server_mode a_furby 2)]
   \<and> new_Furby server_mode a_furby 1
       \<notin> snd ` set (furbies (fst (step server_mode
                 (fst (step server_mode (init\<lparr>connecting := [a_furby, a_furby]\<rparr>)
                         (Connected a_furby 1)))
                 (Connected a_furby 2))))"
proof -
  let ?s = "init\<lparr>connecting := [a_furby, a_furby]\<rparr>"
  have h: "\<not> exited ?s" "callback_due a_furby (connecting ?s)"
    "callback_due a_furby (remove1 a_furby (connecting ?s))" "uuid a_furby = uuid a_furby"
    by (simp_all add: init_def callback_due_def)
  have e: "furbies ?s = []" "uuid a_furby = ''AA:BB''"
    "js_put ''AA:BB'' (new_Furby server_mode a_furby 2) [] =
       [(''AA:BB'', new_Furby server_mode a_furby 2)]"
    by (simp_all add: init_def a_furby_def js_put_def is_array_index_def is_digit_def)
  have ne: "new_Furby server_mode a_furby 1 \<noteq> new_Furby server_mode a_furby 2"
    by (simp add: new_Furby_def)
  from h(1-3) e ne reconnect_overwrites [OF h, of server_mode 1 2] show ?thesis
    by simp
qed

text \<open>
  Claim C8. A state-change notification starts scanning when the state is
  \<^verbatim>\<open>poweredOn\<close> and stops it for every other state. What is done depends on the
  notification alone, and the state of the process is left as it was: there is no
  field that remembers the adapter.
\<close>

theorem stateChange_scans:
  "step cfg s (StateChange state) =
     (s, if exited s then []
         else if state = ''poweredOn'' then [StartScanning] else [StopScanning])"
  by (simp add: on_stateChange_def)

text \<open>
  Claim C5, as it stands, fails for a body that parses to an array: it is not the
  object a command request is required to be, yet the \<^verbatim>\<open>in\<close> operator accepts it,
  the command is sent to every Furby and the response is \<^verbatim>\<open>ok\<close>.
\<close>

theorem array_body_dispatched:
  "req_method (post_feed (Inr (JArray []))) = ''POST''
   \<and> query_of (req_url (post_feed (Inr (JArray [])))) ! 0 = ''cmd''
   \<and> malformed (req_body (post_feed (Inr (JArray []))))
   \<and> response (requestListener two_furbies ''[]'' (post_feed (Inr (JArray [])))) = Some ''ok''
   \<and> do_calls (requestListener two_furbies ''[]'' (post_feed (Inr (JArray []))))
       = [Do session1 ''feed'' None, Do session2 ''feed'' None]"
  by (simp add: post_feed_def requestListener_def query_cmd_feed parsePostCommand_def
      try_block_def broadcast_def seq_call call_do_def Furby_do_def call_def do_calls_def
      two_furbies_def Let_def)

text \<open>
  Claim C5, amended. A POST to \<^verbatim>\<open>/cmd\<close> whose body \<^verbatim>\<open>JSON.parse\<close> rejects, or parses
  to \<^verbatim>\<open>null\<close>, a boolean, a number or a string, is answered with a text that begins
  with \<^verbatim>\<open>error:\<close>; no \<^verbatim>\<open>do\<close> is called, and the state of the process, the registry with
  it, is left as it was.
\<close>

theorem unusable_body_rejected:
  assumes "req_method req = ''POST''" and "query_of (req_url req) ! 0 = ''cmd''"
    and "unusable (req_body req)"
  shows "(\<exists>rest. response (requestListener (furbies s) (catalog cfg) req)
                    = Some (''error:'' @ rest))
         \<and> do_calls (requestListener (furbies s) (catalog cfg) req) = []
         \<and> fst (step cfg s (Request req)) = s"
  using assms unusable_response [of "req_body req" "furbies s" "query_of (req_url req) ! 1"]
  by (simp add: requestListener_def Let_def do_calls_def)

theorem unusable_body_rejected_witness:
  "req_method (post_feed (Inl (SyntaxError ''Unexpected end of JSON input''))) = ''POST''
   \<and> query_of (req_url (post_feed (Inl (SyntaxError ''Unexpected end of JSON input'')))) ! 0
       = ''cmd''
   \<and> unusable (req_body (post_feed (Inl (SyntaxError ''Unexpected end of JSON input''))))
   \<and> response (requestListener two_furbies ''[]''
                  (post_feed (Inl (SyntaxError ''Unexpected end of JSON input''))))
       = Some ''error: SyntaxError: Unexpected end of JSON input''
   \<and> do_calls (requestListener two_furbies ''[]''
                  (post_feed (Inl (SyntaxError ''Unexpected end of JSON input'')))) = []
   \<and> unusable (req_body (post_feed (Inr (JNumber ''5''))))
   \<and> (\<exists>rest. response (requestListener two_furbies ''[]'' (post_feed (Inr (JNumber ''5''))))
               = Some (''error:'' @ rest))
   \<and> do_calls (requestListener two_furbies ''[]'' (post_feed (Inr (JNumber ''5'')))) = []
   \<and> fst (step server_mode (init\<lparr>furbies := two_furbies\<rparr>)
            (Request (post_feed (Inr (JNumber ''5'')))))
       = init\<lparr>furbies := two_furbies\<rparr>"
proof -
  have h: "req_method (post_feed b) = ''POST''" "query_of (req_url (post_feed b)) ! 0 = ''cmd''"
    for b
    by (simp_all add: post_feed_def query_cmd_feed)
  have m: "unusable (req_body (post_feed (Inl (SyntaxError ''Unexpected end of JSON input''))))"
    "unusable (req_body (post_feed (Inr (JNumber ''5''))))"
    by (simp_all add: post_feed_def)
  have c: "catalog server_mode = ''[]''" "furbies (init\<lparr>furbies := two_furbies\<rparr>) = two_furbies"
    by (simp_all add: server_mode_def)
  have r: "response (requestListener two_furbies ''[]''
                  (post_feed (Inl (SyntaxError ''Unexpected end of JSON input''))))
       = Some ''error: SyntaxError: Unexpected end of JSON input''"
    by (simp add: post_feed_def requestListener_def query_cmd_feed parsePostCommand_def
        try_block_def throw_def)
  from h m c r
    unusable_body_rejected [OF h m(1), of "init\<lparr>furbies := two_furbies\<rparr>" server_mode]
    unusable_body_rejected [OF h m(2), of "init\<lparr>furbies := two_furbies\<rparr>" server_mode]
  show ?thesis
    by simp
qed

subsection \<open>Introspection\<close>

lemma run_exited: "exited s \<Longrightarrow> run cfg s evs = (s, [])"
proof (induction evs)
  case Nil
  then show ?case by simp
next
  case (Cons e evs)
  then have "step cfg s e = (s, [])"
    by (cases e) simp_all
  with Cons show ?case by simp
qed

lemma run_append:
  "run cfg s (evs @ evs') =
     (case run cfg s evs of
        (s', es) \<Rightarrow> (case run cfg s' evs' of (s'', es') \<Rightarrow> (s'', es @ es')))"
  by (induction evs arbitrary: s) (auto split: prod.splits)

lemma introspect_step:
  assumes "argv2 cfg = Some ''introspect''" and "furbies s = []" and "connecting s = []"
  shows "furbies (fst (step cfg s e)) = [] \<and> connecting (fst (step cfg s e)) = []
         \<and> filter is_Connect (snd (step cfg s e)) = [] \<and> do_calls (snd (step cfg s e)) = []"
proof (cases e)
  case (Request req)
  with assms show ?thesis
    using requestListener_serves [of _ "[]" "catalog cfg" req]
      requestListener_empty [of "catalog cfg" req]
    by (auto simp: filter_empty_conv do_calls_def)
qed (use assms in
    \<open>auto simp: on_stateChange_def on_discover_def do_calls_def Let_def callback_due_def\<close>)

lemma introspect_run:
  assumes "argv2 cfg = Some ''introspect''" and "furbies s = []" and "connecting s = []"
  shows "furbies (fst (run cfg s evs)) = []
         \<and> filter is_Connect (snd (run cfg s evs)) = [] \<and> do_calls (snd (run cfg s evs)) = []"
  using assms(2,3)
proof (induction evs arbitrary: s)
  case Nil
  then show ?case by (simp add: do_calls_def)
next
  case (Cons e evs)
  from introspect_step [OF assms(1) Cons.prems, of e]
  have st: "furbies (fst (step cfg s e)) = []" "connecting (fst (step cfg s e)) = []"
    "filter is_Connect (snd (step cfg s e)) = []" "do_calls (snd (step cfg s e)) = []"
    by simp_all
  from Cons.IH [OF st(1,2)] st(3,4) show ?case
    unfolding run_Cons_fst run_Cons_snd by (simp add: do_calls_def)
qed

lemma introspect_step_exited:
  "argv2 cfg = Some ''introspect'' \<Longrightarrow>
   exited (fst (step cfg s e)) = (exited s \<or> discovers_furby e)"
  by (cases e) (auto simp: on_discover_def Let_def)

lemma introspect_run_exited:
  "argv2 cfg = Some ''introspect'' \<Longrightarrow>
   exited (fst (run cfg s evs)) = (exited s \<or> list_ex discovers_furby evs)"
proof (induction evs arbitrary: s)
  case Nil
  then show ?case by simp
next
  case (Cons e evs)
  from Cons.IH [OF Cons.prems, of "fst (step cfg s e)"]
    introspect_step_exited [OF Cons.prems, of s e]
  show ?case
    unfolding run_Cons_fst by simp
qed

lemma server_step:
  assumes "argv2 cfg \<noteq> Some ''introspect''" and "\<not> exited s"
  shows "\<not> exited (fst (step cfg s e)) \<and> filter is_Introspect (snd (step cfg s e)) = []"
proof (cases e)
  case (Request req)
  with assms show ?thesis
    using requestListener_serves [of _ "furbies s" "catalog cfg" req]
    by (auto simp: filter_empty_conv)
qed (use assms in \<open>auto simp: on_stateChange_def on_discover_def Let_def\<close>)

lemma server_run:
  assumes "argv2 cfg \<noteq> Some ''introspect''" and "\<not> exited s"
  shows "\<not> exited (fst (run cfg s evs)) \<and> filter is_Introspect (snd (run cfg s evs)) = []"
  using assms(2)
proof (induction evs arbitrary: s)
  case Nil
  then show ?case by simp
next
  case (Cons e evs)
  from server_step [OF assms(1) Cons.prems, of e]
  have st: "\<not> exited (fst (step cfg s e))" "filter is_Introspect (snd (step cfg s e)) = []"
    by simp_all
  from Cons.IH [OF st(1)] st(2) show ?case
    unfolding run_Cons_fst run_Cons_snd by simp
qed

lemma introspect_ends:
  assumes "argv2 cfg = Some ''introspect''" and "localName p = Some ''Furby''"
    and "\<not> exited (fst (run cfg s evs))"
  shows "snd (run cfg s (evs @ Discover p # evs')) =
           snd (run cfg s evs) @ [Log ''info'' (''Discovered Furby: '' @ uuid p) [], Introspect p]
         \<and> exited (fst (run cfg s (evs @ Discover p # evs')))"
proof -
  obtain s' es where r: "run cfg s evs = (s', es)"
    by (cases "run cfg s evs")
  with assms(3) have ne: "\<not> exited s'"
    by simp
  with assms(1,2) have st: "step cfg s' (Discover p) =
      (s'\<lparr>exited := True\<rparr>, [Log ''info'' (''Discovered Furby: '' @ uuid p) [], Introspect p])"
    by (simp add: on_discover_def)
  have "run cfg (s'\<lparr>exited := True\<rparr>) evs' = (s'\<lparr>exited := True\<rparr>, [])"
    by (rule run_exited) simp
  with r st show ?thesis
    by (simp add: run_append)
qed

text \<open>
  Claim C7. The mode is \<^verbatim>\<open>process.argv[2]\<close>, the same for the whole run. When it is
  \<^verbatim>\<open>introspect\<close>, the first discovery of a peripheral named \<^verbatim>\<open>Furby\<close> calls
  \<^verbatim>\<open>fluffcon.introspect\<close> on it, which ends the process: nothing is called after it,
  whatever happens next. In this mode no connection is ever asked for, the registry
  stays empty, and \<^verbatim>\<open>do\<close> is never called (a request that arrives before the discovery
  is answered from the empty registry). In any other mode \<^verbatim>\<open>fluffcon.introspect\<close> is
  never called and the process does not end.
\<close>

theorem introspect_or_connect:
  "(argv2 cfg = Some ''introspect'' \<longrightarrow>
      (discovers_furby (Discover p) \<and> \<not> list_ex discovers_furby evs \<longrightarrow>
         snd (run cfg init (evs @ Discover p # evs')) =
           snd (run cfg init evs) @ [Log ''info'' (''Discovered Furby: '' @ uuid p) [], Introspect p]
         \<and> exited (fst (run cfg init (evs @ Discover p # evs'))))
      \<and> furbies (fst (run cfg init evs)) = []
      \<and> filter is_Connect (snd (run cfg init evs)) = []
      \<and> do_calls (snd (run cfg init evs)) = [])
   \<and> (argv2 cfg \<noteq> Some ''introspect'' \<longrightarrow>
        filter is_Introspect (snd (run cfg init evs)) = []
        \<and> \<not> exited (fst (run cfg init evs)))"
  using introspect_ends [of cfg p init evs evs'] introspect_run [of cfg init evs]
    server_run [of cfg init evs] introspect_run_exited [of cfg init evs]
  by (simp add: init_def)

theorem introspect_or_connect_witness:
  "argv2 introspect_mode = Some ''introspect''
   \<and> discovers_furby (Discover a_furby)
   \<and> \<not> list_ex discovers_furby [StateChange ''poweredOn'']
   \<and> snd (run introspect_mode init
            ([StateChange ''poweredOn''] @ Discover a_furby # [Connected a_furby 1]))
       = [StartScanning, Log ''info'' ''Discovered Furby: AA:BB'' [], Introspect a_furby]
   \<and> exited (fst (run introspect_mode init
            ([StateChange ''poweredOn''] @ Discover a_furby # [Connected a_furby 1])))
   \<and> furbies (fst (run introspect_mode init [StateChange ''poweredOn''])) = []
   \<and> argv2 server_mode \<noteq> Some ''introspect''
   \<and> filter is_Introspect (snd (run server_mode init [Discover a_furby])) = []
   \<and> \<not> exited (fst (run server_mode init [Discover a_furby]))"
proof -
  have m: "argv2 introspect_mode = Some ''introspect''"
    "argv2 server_mode \<noteq> Some ''introspect''"
    by (simp_all add: introspect_mode_def server_mode_def)
  have d: "discovers_furby (Discover a_furby)"
    "\<not> list_ex discovers_furby [StateChange ''poweredOn'']"
    by (simp_all add: a_furby_def)
  have r: "snd (run introspect_mode init [StateChange ''poweredOn'']) = [StartScanning]"
    by (simp add: init_def on_stateChange_def)
  have u: "uuid a_furby = ''AA:BB''"
    by (simp add: a_furby_def)
  from m d r u
    introspect_or_connect [of introspect_mode a_furby "[StateChange ''poweredOn'']"
      "[Connected a_furby 1]"]
    introspect_or_connect [of server_mode a_furby "[Discover a_furby]" "[]"]
  show ?thesis
    by simp
qed

subsection \<open>The cross-origin header\<close>

lemma headers_dispatched: "list_all dispatched es \<Longrightarrow> headers_from hs es = hs"
proof (induction es)
  case Nil
  then show ?case by simp
next
  case (Cons e es)
  then show ?case by (cases e) simp_all
qed

lemma parsePostCommand_headers: "headers_from hs (parsePostCommand r n b) = hs"
  using parsePostCommand_effects [of _ r n b]
  by (intro headers_dispatched) (simp add: list_all_iff)

text \<open>Every route but \<^verbatim>\<open>/scan\<close> writes the head with the header before it ends the response.\<close>

lemma cors_elsewhere:
  "query_of (req_url req) ! 0 \<noteq> ''scan'' \<Longrightarrow> allows_any_origin (requestListener r cat req)"
  by (simp add: allows_any_origin_def requestListener_def Let_def parsePostCommand_headers
      cors_def)

text \<open>
  Claim C9 fails on the route \<^verbatim>\<open>/scan\<close>: the branch of line 54 ends the response
  without writing a head, so the response \<^verbatim>\<open>scanning\<close> carries no
  \<^verbatim>\<open>Access-Control-Allow-Origin\<close>, whereas the three sibling branches write it
  (\<open>cors_elsewhere\<close>).
\<close>

theorem scan_without_cors:
  "requestListener r cat \<lparr>req_method = m, req_url = ''/scan'', req_body = b\<rparr>
     = [StartScanning, End (Some ''scanning'')]
   \<and> response (requestListener r cat \<lparr>req_method = m, req_url = ''/scan'', req_body = b\<rparr>)
     = Some ''scanning''
   \<and> \<not> allows_any_origin
         (requestListener r cat \<lparr>req_method = m, req_url = ''/scan'', req_body = b\<rparr>)"
  by (simp add: requestListener_def query_of_def allows_any_origin_def)

end
